theory Spec2Isabelle
  imports Complex_Main "HOL-Library.Log_Nat"
begin

section \<open>JavaScript values the code relies on\<close>

text \<open>
  The server is TypeScript running on Node.js. Three features of the language decide what
  the functions below return, and each is written out here rather than left to HOL:
  \<^item> truthiness: \<^verbatim>\<open>if (stoppedAt)\<close> and \<^verbatim>\<open>a || b\<close> test ToBoolean, under which
    \<^verbatim>\<open>null\<close>, \<^verbatim>\<open>undefined\<close> and the empty string are false and every object is true;
  \<^item> numbers: a JavaScript number is an IEEE-754 binary64 value, and \<^verbatim>\<open>/\<close> and \<^verbatim>\<open>*\<close>
    round their exact result to the nearest such value;
  \<^item> property lookup: \<^verbatim>\<open>table[key]\<close> on an object literal also finds the members the
    literal inherits from \<^verbatim>\<open>Object.prototype\<close>.
  A string is a list of characters, one \<open>char\<close> for each UTF-16 code unit below 256.
\<close>

subsection \<open>Strings\<close>

text \<open>ToBoolean of a value of type \<^verbatim>\<open>string | null\<close> (or of an optional string).\<close>

definition truthyString :: "string option \<Rightarrow> bool" where
  "truthyString v = (case v of None \<Rightarrow> False | Some s \<Rightarrow> s \<noteq> [])"

text \<open>\<^verbatim>\<open>a || b\<close> on optional strings: \<open>b\<close> unless \<open>a\<close> is truthy.\<close>

definition orElse :: "string option \<Rightarrow> string \<Rightarrow> string" where
  "orElse v d = (case v of None \<Rightarrow> d | Some s \<Rightarrow> if s = [] then d else s)"

text \<open>The decimal text of a natural number, as a template literal prints an index or a length.\<close>

definition digitChar :: "nat \<Rightarrow> char" where
  "digitChar d = char_of (48 + d)"

fun showNat :: "nat \<Rightarrow> string" where
  "showNat n = (if n < 10 then [digitChar n] else showNat (n div 10) @ [digitChar (n mod 10)])"

declare showNat.simps [simp del]

text \<open>
  \<^verbatim>\<open>s.split(sep)\<close> for a separator of one character: the pieces between the separators,
  at least one piece, possibly empty ones. \<open>splitAcc\<close> carries the piece being read.
\<close>

fun splitAcc :: "char \<Rightarrow> string \<Rightarrow> string \<Rightarrow> string list" where
  "splitAcc sep cur [] = [cur]"
| "splitAcc sep cur (c # cs) =
     (if c = sep then cur # splitAcc sep [] cs else splitAcc sep (cur @ [c]) cs)"

definition split :: "string \<Rightarrow> char \<Rightarrow> string list" where
  "split s sep = splitAcc sep [] s"

text \<open>
  \<^verbatim>\<open>s.toLowerCase()\<close> on code units below 256: the capital letters are A to Z and the
  Latin-1 capitals 192 to 222 without the multiplication sign 215; each moves up by 32.
\<close>

definition toLowerChar :: "char \<Rightarrow> char" where
  "toLowerChar c =
     (let n = (of_char c :: nat)
      in if (65 \<le> n \<and> n \<le> 90) \<or> (192 \<le> n \<and> n \<le> 222 \<and> n \<noteq> 215)
         then char_of (n + 32) else c)"

definition toLowerCase :: "string \<Rightarrow> string" where
  "toLowerCase s = map toLowerChar s"

text \<open>\<^verbatim>\<open>s.includes(search)\<close>: \<open>search\<close> occurs in \<open>s\<close> as a contiguous run.\<close>

fun startsWith :: "string \<Rightarrow> string \<Rightarrow> bool" where
  "startsWith s [] = True"
| "startsWith [] (c # cs) = False"
| "startsWith (x # xs) (c # cs) = (x = c \<and> startsWith xs cs)"

fun stringIncludes :: "string \<Rightarrow> string \<Rightarrow> bool" where
  "stringIncludes [] search = (search = [])"
| "stringIncludes (x # xs) search = (startsWith (x # xs) search \<or> stringIncludes xs search)"

subsection \<open>Errors\<close>

text \<open>
  A thrown \<^verbatim>\<open>Error\<close> object: its \<^verbatim>\<open>name\<close> and its \<^verbatim>\<open>message\<close>. Every value thrown in
  this program is one (a rejected request, a \<^verbatim>\<open>TypeError\<close>, or \<^verbatim>\<open>new Error(...)\<close>).
\<close>

datatype js_error = JsError (errorName: string) (errorMessage: string)

text \<open>\<^verbatim>\<open>`${error}`\<close>, that is \<^verbatim>\<open>Error.prototype.toString\<close>.\<close>

definition errorToString :: "js_error \<Rightarrow> string" where
  "errorToString e =
     (if errorName e = [] then errorMessage e
      else if errorMessage e = [] then errorName e
      else errorName e @ '': '' @ errorMessage e)"

text \<open>\<^verbatim>\<open>new Error(message)\<close>.\<close>

definition newError :: "string \<Rightarrow> js_error" where
  "newError msg = JsError ''Error'' msg"

text \<open>
  Reading property \<open>p\<close> of \<^verbatim>\<open>undefined\<close>: the \<^verbatim>\<open>TypeError\<close> Node.js throws.
\<close>

definition cannotRead :: "string \<Rightarrow> js_error" where
  "cannotRead p =
     JsError ''TypeError''
       (''Cannot read properties of undefined (reading '' @ [CHR 0x27] @ p @ [CHR 0x27] @ '')'')"

subsection \<open>Numbers\<close>

text \<open>
  A finite binary64 value is modelled by the rational number it denotes. \<open>fl\<close> rounds an
  exact result to the nearest value with a significand of 53 bits, ties to the even
  significand; below \<open>2 ^ - 1022\<close> the spacing stays that of the smallest binade
  (subnormal numbers). The exponent has no upper limit here: the only numbers the program
  computes come from key counts, which are array lengths below \<open>2 ^ 32\<close>.
\<close>

definition pow2 :: "int \<Rightarrow> rat" where
  "pow2 e = (if 0 \<le> e then 2 ^ nat e else 1 / 2 ^ nat (- e))"

definition roundTiesToEven :: "rat \<Rightarrow> int" where
  "roundTiesToEven q =
     (let f = \<lfloor>q\<rfloor>; r = q - of_int f
      in if r < 1 / 2 then f
         else if 1 / 2 < r then f + 1
         else if even f then f else f + 1)"

text \<open>The binade of a positive number: the \<open>e\<close> with \<open>2 ^ e \<le> x < 2 ^ (e + 1)\<close>.\<close>

definition binade :: "rat \<Rightarrow> int" where
  "binade x = (if 1 \<le> x then bitlen \<lfloor>x\<rfloor> - 1 else - bitlen (\<lceil>1 / x\<rceil> - 1))"

definition roundPos :: "rat \<Rightarrow> rat" where
  "roundPos x =
     (let u = pow2 (max (binade x) (- 1022) - 52)
      in of_int (roundTiesToEven (x / u)) * u)"

definition fl :: "rat \<Rightarrow> rat" where
  "fl x = (if x = 0 then 0 else if 0 < x then roundPos x else - roundPos (- x))"

text \<open>\<^verbatim>\<open>a / b\<close> for a divisor other than zero, and \<^verbatim>\<open>a * b\<close>.\<close>

definition jsDivide :: "rat \<Rightarrow> rat \<Rightarrow> rat" where
  "jsDivide a b = fl (a / b)"

definition jsMultiply :: "rat \<Rightarrow> rat \<Rightarrow> rat" where
  "jsMultiply a b = fl (a * b)"

subsection \<open>Property lookup in an object literal\<close>

text \<open>
  The result of \<^verbatim>\<open>table[key]\<close> where the table's own values are strings: one of those
  strings, or a member inherited from \<^verbatim>\<open>Object.prototype\<close> (a function, or the prototype
  itself for \<^verbatim>\<open>__proto__\<close>), which is an object and so truthy and not a string.
\<close>

datatype js_value = StringValue string | InheritedMember string

text \<open>
  The property names every object literal inherits from \<^verbatim>\<open>Object.prototype\<close> in Node.js.
\<close>

definition objectPrototypeNames :: "string list" where
  "objectPrototypeNames =
     [''constructor'', ''hasOwnProperty'', ''isPrototypeOf'', ''propertyIsEnumerable'',
      ''toLocaleString'', ''toString'', ''valueOf'', ''__proto__'',
      ''__defineGetter__'', ''__defineSetter__'', ''__lookupGetter__'', ''__lookupSetter__'']"

text \<open>\<^verbatim>\<open>table[key]\<close>; \<open>None\<close> is \<^verbatim>\<open>undefined\<close>.\<close>

definition getProperty :: "(string \<times> string) list \<Rightarrow> string \<Rightarrow> js_value option" where
  "getProperty table key =
     (case map_of table key of
        Some v \<Rightarrow> Some (StringValue v)
      | None \<Rightarrow> if key \<in> set objectPrototypeNames then Some (InheritedMember key) else None)"

text \<open>\<^verbatim>\<open>table[key] || fallback\<close>.\<close>

definition getPropertyOr :: "(string \<times> string) list \<Rightarrow> string \<Rightarrow> string \<Rightarrow> js_value" where
  "getPropertyOr table key fallback =
     (case getProperty table key of
        None \<Rightarrow> StringValue fallback
      | Some (StringValue v) \<Rightarrow> if v = [] then StringValue fallback else StringValue v
      | Some (InheritedMember m) \<Rightarrow> InheritedMember m)"

section \<open>The data model (types/storytelling.ts and the engine's execution record)\<close>

text \<open>
  An optional field (\<^verbatim>\<open>description?: string\<close>) is an \<open>option\<close>; \<open>None\<close> is the absent
  field, which reads as \<^verbatim>\<open>undefined\<close>. Where two interfaces use one field name the
  model prefixes it with the interface. A number field holds the rational its binary64
  value denotes.

  The code receives the engine's replies and the tools' arguments as \<^verbatim>\<open>any\<close>. The model
  gives them the shape the interfaces and the tool schemas declare, with every field the
  code reads through \<^verbatim>\<open>?.\<close> or tests for presence made optional; what the code does
  with a value of another shape is not modelled.
\<close>

datatype priority = High | Medium | Low

text \<open>A theme as the caller passes it (only \<^verbatim>\<open>name\<close> is required by the tool's schema).\<close>

record theme_arg =
  argName :: string
  argDescription :: "string option"
  argPriority :: "priority option"

text \<open>\<^verbatim>\<open>StoryTheme\<close> as the request carries it.\<close>

record story_theme =
  themeName :: string
  themeDescription :: string
  themePriority :: priority

text \<open>
  \<^verbatim>\<open>MediaFile\<close>. The declared type of \<^verbatim>\<open>mimeType\<close> is \<^verbatim>\<open>string\<close>; the value stored is
  whatever the table lookup of \<open>getMimeTypeFromUrl\<close> returns.
\<close>

record media_file =
  filename :: string
  filepath :: string
  fileSize :: nat
  mimeType :: js_value
  duration :: "rat option"

record output_options_arg =
  argCreateSpreadsheet :: "bool option"
  argCreateSummary :: "bool option"
  argCreateVideoClips :: "bool option"
  argLanguage :: "string option"

record output_options =
  createSpreadsheet :: bool
  createSummary :: bool
  createVideoClips :: bool
  language :: string

record story_analysis_request =
  files :: "media_file list"
  themes :: "story_theme list"
  outputOptions :: output_options

datatype p_category = PeopleCategory | PlacesCategory | PurposeCategory | PlotCategory

record soundbite =
  soundbiteText :: string
  startTime :: rat
  endTime :: rat
  speaker :: "string option"
  emotionalImpact :: rat
  pCategory :: p_category
  soundbiteTheme :: string

record person =
  personName :: string
  personRole :: string
  personSignificance :: string

record place =
  location :: string
  placeContext :: string
  importance :: string

record purpose_entry =
  motivation :: string
  goal :: string
  purposeTransformation :: string

record plot_entry =
  event :: string
  timestamp :: rat
  plotSignificance :: string

text \<open>
  \<^verbatim>\<open>StoryAnalysis\<close>. The engine produces it; the code reads \<^verbatim>\<open>plot\<close>, \<^verbatim>\<open>people\<close> and
  \<^verbatim>\<open>soundbites\<close> through \<^verbatim>\<open>?.\<close>, so each list may be absent.
\<close>

record story_analysis =
  people :: "person list option"
  places :: "place list option"
  purpose :: "purpose_entry list option"
  plot :: "plot_entry list option"
  soundbites :: "soundbite list option"
  overallNarrative :: "string option"

record story_deliverables =
  spreadsheetUrl :: "string option"
  summaryDocUrl :: "string option"
  videoClipsUrls :: "string list option"
  finalSequenceUrl :: "string option"

text \<open>A JSON value the code passes along or counts without looking inside.\<close>

datatype json =
  JNull
| JBool bool
| JNumber rat
| JString string
| JArray "json list"
| JObject "(string \<times> json) list"

text \<open>
  The execution record of \<^verbatim>\<open>GET /api/v1/executions/{id}\<close>. \<^verbatim>\<open>runData\<close> is an object
  keyed by node name: the list holds its entries in the order \<^verbatim>\<open>Object.keys\<close> gives them
  (a JavaScript object has each key once). \<open>stoppedAt = None\<close> is \<^verbatim>\<open>null\<close>.
\<close>

record execution_error =
  message :: "string option"

record result_data =
  runData :: "(string \<times> json) list option"
  executionError :: "execution_error option"

record execution_data =
  resultData :: "result_data option"
  analysis :: "story_analysis option"
  deliverables :: "story_deliverables option"

record execution =
  finished :: bool
  stoppedAt :: "string option"
  data :: "execution_data option"

datatype job_status = Pending | Processing | Completed | Failed

text \<open>\<^verbatim>\<open>ProcessingStatus\<close>; \<^verbatim>\<open>results\<close> holds the execution's \<^verbatim>\<open>data\<close> object as it came.\<close>

record processing_status =
  jobId :: string
  status :: job_status
  progress :: rat
  currentStep :: js_value
  results :: "execution_data option"
  statusError :: "string option"

text \<open>A file as \<open>uploadFiles\<close> receives it (\<^verbatim>\<open>Express.Multer.File\<close>), and the upload's reply.\<close>

record multer_file =
  originalname :: string
  buffer :: "nat list"
  mimetype :: string
  bufferSize :: nat

record upload_reply =
  replyFilepath :: string

section \<open>The workflow client (tools/n8n-client.ts)\<close>

text \<open>
  The engine is the environment. A request is a function from what is sent to what comes
  back: \<open>Inl\<close> a rejected request (the error axios throws), \<open>Inr\<close> the reply's
  \<^verbatim>\<open>data\<close>. The upload endpoint carries a state of its own, so that what it answers may
  depend on everything uploaded before.
\<close>

type_synonym http_get = "string \<Rightarrow> js_error + execution"

type_synonym 's upload_endpoint = "'s \<Rightarrow> multer_file \<Rightarrow> (js_error + upload_reply) \<times> 's"

type_synonym start_endpoint = "story_analysis_request \<Rightarrow> js_error + string"

subsection \<open>uploadFiles\<close>

text \<open>
  The \<^verbatim>\<open>for\<close> loop over the files, with \<^verbatim>\<open>uploadedPaths\<close> as the accumulator. A failed
  upload leaves the loop at once with the new error; the paths collected so far are lost.
\<close>

fun uploadLoop ::
  "'s upload_endpoint \<Rightarrow> multer_file list \<Rightarrow> string list \<Rightarrow> 's \<Rightarrow> (js_error + string list) \<times> 's"
where
  "uploadLoop post [] uploadedPaths s = (Inr uploadedPaths, s)"
| "uploadLoop post (file # rest) uploadedPaths s =
     (case post s file of
        (Inr response, s') \<Rightarrow> uploadLoop post rest (uploadedPaths @ [replyFilepath response]) s'
      | (Inl err, s') \<Rightarrow>
          (Inl (newError (''Failed to upload file '' @ originalname file @ '': '' @ errorToString err)),
           s'))"

definition uploadFiles ::
  "'s upload_endpoint \<Rightarrow> multer_file list \<Rightarrow> 's \<Rightarrow> (js_error + string list) \<times> 's"
where
  "uploadFiles post fs s = uploadLoop post fs [] s"

subsection \<open>startStorytellingWorkflow\<close>

definition startStorytellingWorkflow :: "start_endpoint \<Rightarrow> story_analysis_request \<Rightarrow> js_error + string" where
  "startStorytellingWorkflow post request =
     (case post request of
        Inr executionId \<Rightarrow> Inr executionId
      | Inl err \<Rightarrow> Inl (newError (''Failed to start storytelling workflow: '' @ errorToString err)))"

subsection \<open>The status mapper\<close>

definition mapN8NStatus :: "bool \<Rightarrow> string option \<Rightarrow> job_status" where
  "mapN8NStatus fin stopped =
     (if truthyString stopped then Failed
      else if fin then Completed
      else Processing)"

text \<open>\<^verbatim>\<open>execution.data?.resultData?.runData\<close>.\<close>

definition runDataOf :: "execution \<Rightarrow> (string \<times> json) list option" where
  "runDataOf e = Option.bind (Option.bind (data e) resultData) runData"

text \<open>\<^verbatim>\<open>Object.keys\<close> of the run data.\<close>

definition objectKeys :: "(string \<times> json) list \<Rightarrow> string list" where
  "objectKeys obj = map fst obj"

definition calculateProgress :: "execution \<Rightarrow> rat" where
  "calculateProgress e =
     (case runDataOf e of
        None \<Rightarrow> 0
      | Some rd \<Rightarrow>
          (let totalNodes = length (objectKeys rd);
               expectedNodes = 10
           in min (jsMultiply (jsDivide (of_nat totalNodes) expectedNodes) 100) 100))"

definition stepMap :: "(string \<times> string) list" where
  "stepMap =
     [(''Upload Interviews Webhook'', ''Processing uploads...''),
      (''Process Input Files'', ''Analyzing files...''),
      (''Transcribe with Whisper'', ''Transcribing audio...''),
      (''4P Story Analysis'', ''Analyzing story structure...''),
      (''Update Google Spreadsheet'', ''Creating spreadsheet...''),
      (''Create Story Summary Doc'', ''Writing summary...''),
      (''Extract Soundbite Clips'', ''Extracting clips...''),
      (''Create Final Story Video'', ''Creating final video...'')]"

text \<open>\<^verbatim>\<open>xs[xs.length - 1]\<close> and \<^verbatim>\<open>xs.pop()\<close>: the last element, \<^verbatim>\<open>undefined\<close> on an empty array.\<close>

definition lastElement :: "string list \<Rightarrow> string option" where
  "lastElement xs = (if xs = [] then None else Some (last xs))"

text \<open>ToString of a string or \<^verbatim>\<open>undefined\<close>, as a property key or in a template literal.\<close>

definition toStringOpt :: "string option \<Rightarrow> string" where
  "toStringOpt v = (case v of None \<Rightarrow> ''undefined'' | Some s \<Rightarrow> s)"

definition getCurrentStep :: "execution \<Rightarrow> js_value" where
  "getCurrentStep e =
     (case runDataOf e of
        None \<Rightarrow> StringValue ''Starting...''
      | Some rd \<Rightarrow>
          (let completedNodes = objectKeys rd;
               lastNode = lastElement completedNodes
           in getPropertyOr stepMap (toStringOpt lastNode) ''Processing...''))"

subsection \<open>getExecutionStatus\<close>

text \<open>\<^verbatim>\<open>execution.data?.resultData?.error?.message\<close>.\<close>

definition errorMessageOf :: "execution \<Rightarrow> string option" where
  "errorMessageOf e =
     Option.bind (Option.bind (Option.bind (data e) resultData) executionError) message"

definition getExecutionStatus :: "http_get \<Rightarrow> string \<Rightarrow> js_error + processing_status" where
  "getExecutionStatus get executionId =
     (case get (''/api/v1/executions/'' @ executionId) of
        Inl err \<Rightarrow> Inl (newError (''Failed to get execution status: '' @ errorToString err))
      | Inr ex \<Rightarrow>
          Inr \<lparr>jobId = executionId,
               status = mapN8NStatus (finished ex) (stoppedAt ex),
               progress = calculateProgress ex,
               currentStep = getCurrentStep ex,
               results = (if finished ex \<and> \<not> truthyString (stoppedAt ex) then data ex else None),
               statusError = (if truthyString (stoppedAt ex) then errorMessageOf ex else None)\<rparr>)"

section \<open>The tools (tools/storytelling-tools.ts)\<close>

text \<open>The local job registry, \<^verbatim>\<open>Map<string, ProcessingStatus>\<close>.\<close>

type_synonym jobs = "string \<rightharpoonup> processing_status"

subsection \<open>getMimeTypeFromUrl\<close>

definition mimeMap :: "(string \<times> string) list" where
  "mimeMap =
     [(''mp4'', ''video/mp4''),
      (''avi'', ''video/avi''),
      (''mov'', ''video/quicktime''),
      (''mp3'', ''audio/mp3''),
      (''wav'', ''audio/wav''),
      (''flac'', ''audio/flac'')]"

definition getMimeTypeFromUrl :: "string \<Rightarrow> js_value" where
  "getMimeTypeFromUrl url =
     (let ext = map_option toLowerCase (lastElement (split url (CHR ''.'')))
      in getPropertyOr mimeMap (orElse ext []) ''application/octet-stream'')"

subsection \<open>executeStartAnalysis\<close>

record start_args =
  argThemes :: "theme_arg list"
  argOutputOptions :: "output_options_arg option"
  argFileUrls :: "string list"

datatype start_reply =
  StartSuccess (startJobId: string) (startMessage: string) (estimatedDuration: string)
    (startThemes: "string list") (fileCount: nat)
| StartFailure string

text \<open>The callback of \<^verbatim>\<open>fileUrls.map\<close>, given the index and the URL.\<close>

definition mediaFileOf :: "nat \<Rightarrow> string \<Rightarrow> media_file" where
  "mediaFileOf index url =
     \<lparr>filename = ''interview_'' @ showNat (index + 1) @ ''.''
                   @ toStringOpt (lastElement (split url (CHR ''.''))),
      filepath = url,
      fileSize = 0,
      mimeType = getMimeTypeFromUrl url,
      duration = None\<rparr>"

text \<open>The callback of \<^verbatim>\<open>themes.map\<close>.\<close>

definition storyThemeOf :: "theme_arg \<Rightarrow> story_theme" where
  "storyThemeOf t =
     \<lparr>themeName = argName t,
      themeDescription = orElse (argDescription t) [],
      themePriority = (case argPriority t of None \<Rightarrow> Medium | Some pr \<Rightarrow> pr)\<rparr>"

text \<open>\<^verbatim>\<open>outputOptions = {}\<close>, the default of the destructuring.\<close>

definition noOutputOptions :: output_options_arg where
  "noOutputOptions =
     \<lparr>argCreateSpreadsheet = None, argCreateSummary = None, argCreateVideoClips = None,
      argLanguage = None\<rparr>"

text \<open>\<^verbatim>\<open>flag !== false\<close>.\<close>

definition notFalse :: "bool option \<Rightarrow> bool" where
  "notFalse flag = (case flag of None \<Rightarrow> True | Some b \<Rightarrow> b)"

text \<open>
  The request \<open>executeStartAnalysis\<close> builds before it calls the client (lines 144 to 167).
\<close>

definition startAnalysisRequest :: "start_args \<Rightarrow> story_analysis_request" where
  "startAnalysisRequest args =
     (let opts = (case argOutputOptions args of None \<Rightarrow> noOutputOptions | Some given \<Rightarrow> given)
      in \<lparr>files = map (\<lambda>(index, url). mediaFileOf index url) (enumerate 0 (argFileUrls args)),
          themes = map storyThemeOf (argThemes args),
          outputOptions =
            \<lparr>createSpreadsheet = notFalse (argCreateSpreadsheet opts),
             createSummary = notFalse (argCreateSummary opts),
             createVideoClips = notFalse (argCreateVideoClips opts),
             language = orElse (argLanguage opts) ''en''\<rparr>\<rparr>)"

definition executeStartAnalysis :: "start_endpoint \<Rightarrow> jobs \<Rightarrow> start_args \<Rightarrow> start_reply \<times> jobs" where
  "executeStartAnalysis post js args =
     (let request = startAnalysisRequest args
      in case startStorytellingWorkflow post request of
           Inl err \<Rightarrow> (StartFailure (''Failed to start analysis: '' @ errorMessage err), js)
         | Inr executionId \<Rightarrow>
             (StartSuccess executionId ''Storytelling analysis started successfully''
                ''10-30 minutes depending on file sizes''
                (map argName (argThemes args)) (length (files request)),
              js(executionId \<mapsto>
                \<lparr>jobId = executionId, status = Pending, progress = 0,
                 currentStep = StringValue ''Initializing analysis...'',
                 results = None, statusError = None\<rparr>)))"

subsection \<open>executeGetStatus\<close>

record status_results =
  resultsAnalysis :: "story_analysis option"
  resultsDeliverables :: "story_deliverables option"
  summary :: string

datatype status_reply =
  StatusWithResults job_status rat js_value status_results
| StatusOnly (replyStatus: job_status) (replyProgress: rat) (replyCurrentStep: js_value)
    (replyError: "string option")
| StatusFailure string

text \<open>\<^verbatim>\<open>xs?.length || 0\<close>.\<close>

definition lengthOrZero :: "'a list option \<Rightarrow> nat" where
  "lengthOrZero xs = (case xs of None \<Rightarrow> 0 | Some l \<Rightarrow> length l)"

text \<open>
  The summary reads \<^verbatim>\<open>analysis.soundbites\<close> first, which throws when the result carries
  no analysis.
\<close>

definition generateResultSummary :: "story_analysis option \<Rightarrow> js_error + string" where
  "generateResultSummary a =
     (case a of
        None \<Rightarrow> Inl (cannotRead ''soundbites'')
      | Some an \<Rightarrow>
          Inr (''Analysis completed with '' @ showNat (lengthOrZero (soundbites an))
               @ '' soundbites identified across '' @ showNat (lengthOrZero (people an))
               @ '' key characters. The story explores themes of transformation through ''
               @ showNat (lengthOrZero (purpose an))
               @ '' core purposes across '' @ showNat (lengthOrZero (places an))
               @ '' significant locations.''))"

text \<open>The reply of the second \<^verbatim>\<open>return\<close>: the status without results.\<close>

definition statusOnly :: "processing_status \<Rightarrow> status_reply" where
  "statusOnly st = StatusOnly (status st) (progress st) (currentStep st) (statusError st)"

definition executeGetStatus :: "http_get \<Rightarrow> jobs \<Rightarrow> string \<Rightarrow> status_reply \<times> jobs" where
  "executeGetStatus get js jid =
     (case getExecutionStatus get jid of
        Inl err \<Rightarrow> (StatusFailure (''Failed to get status: '' @ errorMessage err), js)
      | Inr st \<Rightarrow>
          (let js' = js(jid \<mapsto> st)
           in if status st = Completed
              then (case results st of
                      None \<Rightarrow> (statusOnly st, js')
                    | Some res \<Rightarrow>
                        (case generateResultSummary (analysis res) of
                           Inl err \<Rightarrow>
                             (StatusFailure (''Failed to get status: '' @ errorMessage err), js')
                         | Inr line \<Rightarrow>
                             (StatusWithResults (status st) (progress st) (currentStep st)
                                \<lparr>resultsAnalysis = analysis res,
                                 resultsDeliverables = deliverables res,
                                 summary = line\<rparr>,
                              js')))
              else (statusOnly st, js')))"

subsection \<open>executeGetInsights\<close>

record character_arc =
  character :: string
  transformation :: string

record transformation_insights =
  transformationMoments :: "plot_entry list option"
  keyCharacterArcs :: "character_arc list option"
  emotionalHighpoints :: "soundbite list option"

text \<open>The value of the reply's \<^verbatim>\<open>insights\<close>, one shape for each branch of the switch.\<close>

datatype insight_value =
  PeopleInsights "person list option"
| PlacesInsights "place list option"
| PurposeInsights "purpose_entry list option"
| PlotInsights "plot_entry list option"
| SoundbiteInsights "soundbite list option"
| TransformationInsights transformation_insights
| AnalysisInsights "story_analysis option"

datatype insights_reply = InsightsSuccess insight_value | InsightsFailure string

text \<open>
  \<open>extractTransformationInsights\<close> reads \<^verbatim>\<open>analysis.plot\<close> first; each of the three lists
  is read through \<^verbatim>\<open>?.\<close>, so an absent list stays absent.
\<close>

definition extractTransformationInsights :: "story_analysis option \<Rightarrow> js_error + transformation_insights" where
  "extractTransformationInsights a =
     (case a of
        None \<Rightarrow> Inl (cannotRead ''plot'')
      | Some an \<Rightarrow>
          Inr \<lparr>transformationMoments =
                 map_option (filter (\<lambda>p. stringIncludes (plotSignificance p) ''transformation''))
                   (plot an),
               keyCharacterArcs =
                 map_option
                   (map (\<lambda>pe. \<lparr>character = personName pe, transformation = personSignificance pe\<rparr>))
                   (people an),
               emotionalHighpoints =
                 map_option (filter (\<lambda>sb. 7 < emotionalImpact sb)) (soundbites an)\<rparr>)"

text \<open>The \<^verbatim>\<open>switch\<close> on the insight type; \<^verbatim>\<open>all\<close> has no case of its own and takes the default.\<close>

definition selectInsights :: "story_analysis option \<Rightarrow> string \<Rightarrow> js_error + insight_value" where
  "selectInsights a insightType =
     (if insightType = ''people'' then
        (case a of None \<Rightarrow> Inl (cannotRead ''people'') | Some an \<Rightarrow> Inr (PeopleInsights (people an)))
      else if insightType = ''places'' then
        (case a of None \<Rightarrow> Inl (cannotRead ''places'') | Some an \<Rightarrow> Inr (PlacesInsights (places an)))
      else if insightType = ''purpose'' then
        (case a of None \<Rightarrow> Inl (cannotRead ''purpose'') | Some an \<Rightarrow> Inr (PurposeInsights (purpose an)))
      else if insightType = ''plot'' then
        (case a of None \<Rightarrow> Inl (cannotRead ''plot'') | Some an \<Rightarrow> Inr (PlotInsights (plot an)))
      else if insightType = ''soundbites'' then
        (case a of None \<Rightarrow> Inl (cannotRead ''soundbites'')
         | Some an \<Rightarrow> Inr (SoundbiteInsights (soundbites an)))
      else if insightType = ''transformation'' then
        (case extractTransformationInsights a of
           Inl err \<Rightarrow> Inl err
         | Inr found \<Rightarrow> Inr (TransformationInsights found))
      else Inr (AnalysisInsights a))"

text \<open>\<open>insightType = None\<close> is the argument left out, which defaults to \<^verbatim>\<open>all\<close>.\<close>

definition executeGetInsights :: "http_get \<Rightarrow> string \<Rightarrow> string option \<Rightarrow> insights_reply" where
  "executeGetInsights get jid insightTypeArg =
     (let insightType = (case insightTypeArg of None \<Rightarrow> ''all'' | Some given \<Rightarrow> given)
      in case getExecutionStatus get jid of
           Inl err \<Rightarrow> InsightsFailure (''Failed to get insights: '' @ errorMessage err)
         | Inr st \<Rightarrow>
             (if status st = Completed
              then (case results st of
                      None \<Rightarrow> InsightsFailure ''Analysis not completed yet or no results available''
                    | Some res \<Rightarrow>
                        (case selectInsights (analysis res) insightType of
                           Inl err \<Rightarrow> InsightsFailure (''Failed to get insights: '' @ errorMessage err)
                         | Inr found \<Rightarrow> InsightsSuccess found))
              else InsightsFailure ''Analysis not completed yet or no results available''))"

section \<open>Facts about the string and number models\<close>

text \<open>\<open>stringIncludes\<close> is the substring test: some text before, the search text, some after.\<close>

lemma startsWith_iff: "startsWith s t \<longleftrightarrow> (\<exists>post. s = t @ post)"
  by (induction s t rule: startsWith.induct) auto

lemma stringIncludes_iff: "stringIncludes s t \<longleftrightarrow> (\<exists>pre post. s = pre @ t @ post)"
proof (induction s)
  case Nil
  then show ?case by simp
next
  case (Cons x xs)
  show ?case
  proof
    assume "stringIncludes (x # xs) t"
    then consider "startsWith (x # xs) t" | "stringIncludes xs t" by auto
    then show "\<exists>pre post. x # xs = pre @ t @ post"
    proof cases
      case 1
      then obtain post where "x # xs = t @ post" by (auto simp: startsWith_iff)
      then have "x # xs = [] @ t @ post" by simp
      then show ?thesis by blast
    next
      case 2
      with Cons.IH obtain pre post where "xs = pre @ t @ post" by blast
      then have "x # xs = (x # pre) @ t @ post" by simp
      then show ?thesis by blast
    qed
  next
    assume "\<exists>pre post. x # xs = pre @ t @ post"
    then obtain pre post where eq: "x # xs = pre @ t @ post" by blast
    show "stringIncludes (x # xs) t"
    proof (cases pre)
      case Nil
      with eq have "startsWith (x # xs) t" by (auto simp: startsWith_iff)
      then show ?thesis by simp
    next
      case (Cons y ys)
      with eq have "xs = ys @ t @ post" by simp
      with Cons.IH have "stringIncludes xs t" by blast
      then show ?thesis by simp
    qed
  qed
qed

text \<open>
  Rounding never takes a number below an integer it has reached, as long as that integer
  has at most 53 bits and so is a binary64 value itself.
\<close>

lemma roundTiesToEven_ge_floor: "\<lfloor>q\<rfloor> \<le> roundTiesToEven q"
  by (simp add: roundTiesToEven_def Let_def)

lemma roundTiesToEven_ge: "of_int k \<le> q \<Longrightarrow> k \<le> roundTiesToEven q"
proof -
  assume "of_int k \<le> q"
  then have "k \<le> \<lfloor>q\<rfloor>" by (simp add: le_floor_iff)
  with roundTiesToEven_ge_floor [of q] show ?thesis by linarith
qed

lemma binade_ge_one:
  assumes "1 \<le> x"
  shows "0 \<le> binade x" and "2 ^ nat (binade x) \<le> x"
proof -
  let ?m = "\<lfloor>x\<rfloor>"
  from assms have m: "0 < ?m" by simp
  from bitlen_bounds [OF m] have lo: "2 ^ nat (bitlen ?m - 1) \<le> ?m" by simp
  from m have "1 \<le> bitlen ?m" by (simp add: bitlen_alt_def)
  with assms show "0 \<le> binade x" by (simp add: binade_def)
  from lo have "(of_int (2 ^ nat (bitlen ?m - 1)) :: rat) \<le> of_int ?m"
    by (simp only: of_int_le_iff)
  also have "\<dots> \<le> x" by simp
  finally show "2 ^ nat (binade x) \<le> x" using assms by (simp add: binade_def)
qed

lemma roundPos_ge_int:
  assumes m: "1 \<le> m" "m < 2 ^ 53" and x: "of_int m \<le> x"
  shows "of_int m \<le> roundPos x"
proof -
  from m x have x1: "1 \<le> x"
    by (meson of_int_1_le_iff order_trans)
  define b where "b = binade x"
  from binade_ge_one [OF x1] have b0: "0 \<le> b" and bx: "2 ^ nat b \<le> x"
    by (simp_all add: b_def)
  from b0 have mx: "max b (- 1022) = b" by simp
  show ?thesis
  proof (cases "b \<le> 52")
    case True
    define k where "k = nat (52 - b)"
    have u: "pow2 (b - 52) = 1 / 2 ^ k"
    proof (cases "b = 52")
      case True
      then show ?thesis by (simp add: pow2_def k_def)
    next
      case False
      with \<open>b \<le> 52\<close> show ?thesis by (simp add: pow2_def k_def)
    qed
    have "(of_int (m * 2 ^ k) :: rat) = of_int m * 2 ^ k" by simp
    also have "\<dots> \<le> x * 2 ^ k" using x by simp
    finally have "m * 2 ^ k \<le> roundTiesToEven (x * 2 ^ k)"
      by (rule roundTiesToEven_ge)
    then have "(of_int (m * 2 ^ k) :: rat) \<le> of_int (roundTiesToEven (x * 2 ^ k))"
      by (simp only: of_int_le_iff)
    then have "of_int m * 2 ^ k \<le> (of_int (roundTiesToEven (x * 2 ^ k)) :: rat)"
      by simp
    then have "of_int m \<le> (of_int (roundTiesToEven (x * 2 ^ k)) :: rat) / 2 ^ k"
      by (simp add: pos_le_divide_eq)
    then show ?thesis
      by (simp add: roundPos_def Let_def b_def [symmetric] mx u)
  next
    case False
    define j where "j = nat (b - 52)"
    from False have bj: "nat b = 52 + j" by (simp add: j_def)
    from False have u: "pow2 (b - 52) = 2 ^ j" by (simp add: pow2_def j_def)
    from bx have "(2 :: rat) ^ 52 * 2 ^ j \<le> x" by (simp add: bj power_add)
    then have "(2 :: rat) ^ 52 \<le> x / 2 ^ j" by (simp add: pos_le_divide_eq)
    then have "(of_int (2 ^ 52) :: rat) \<le> x / 2 ^ j" by simp
    then have "2 ^ 52 \<le> roundTiesToEven (x / 2 ^ j)" by (rule roundTiesToEven_ge)
    then have r: "(2 :: rat) ^ 52 \<le> of_int (roundTiesToEven (x / 2 ^ j))"
      by (metis of_int_le_iff of_int_numeral of_int_power)
    from False have "1 \<le> j" by (simp add: j_def)
    then have "(2 :: rat) ^ 1 \<le> 2 ^ j" by (intro power_increasing) simp_all
    then have "(2 :: rat) \<le> 2 ^ j" by simp
    with r have "(2 :: rat) ^ 52 * 2 \<le> of_int (roundTiesToEven (x / 2 ^ j)) * 2 ^ j"
      by (intro mult_mono) simp_all
    moreover have "(of_int m :: rat) \<le> 2 ^ 52 * 2"
    proof -
      have "(of_int m :: rat) < of_int (2 ^ 53)" using m by (simp only: of_int_less_iff)
      then show ?thesis by simp
    qed
    ultimately show ?thesis
      by (simp add: roundPos_def Let_def b_def [symmetric] mx u)
  qed
qed


lemma fl_ge_int:
  assumes "1 \<le> m" "m < 2 ^ 53" "of_int m \<le> x"
  shows "of_int m \<le> fl x"
proof -
  from assms have "0 < x"
    by (meson less_le_trans of_int_0_less_iff order.strict_trans1 zero_less_one)
  with roundPos_ge_int [OF assms] show ?thesis by (simp add: fl_def)
qed

lemma progress_at_least_ten:
  assumes "10 \<le> n"
  shows "min (jsMultiply (jsDivide (of_nat n) 10) 100) 100 = 100"
proof -
  from assms have "(of_int 1 :: rat) \<le> of_nat n / 10" by simp
  then have q: "of_int 1 \<le> jsDivide (of_nat n) 10"
    unfolding jsDivide_def by (intro fl_ge_int) simp_all
  then have "(of_int 100 :: rat) \<le> jsDivide (of_nat n) 10 * 100" by simp
  then have "of_int 100 \<le> jsMultiply (jsDivide (of_nat n) 10) 100"
    unfolding jsMultiply_def by (intro fl_ge_int) simp_all
  then show ?thesis by simp
qed

lemma progress_0: "min (jsMultiply (jsDivide 0 10) 100) 100 = 0" by code_simp

lemma progress_1: "min (jsMultiply (jsDivide 1 10) 100) 100 = 10" by code_simp

lemma progress_2: "min (jsMultiply (jsDivide 2 10) 100) 100 = 20" by code_simp

lemma progress_3: "min (jsMultiply (jsDivide 3 10) 100) 100 = 30" by code_simp

lemma progress_4: "min (jsMultiply (jsDivide 4 10) 100) 100 = 40" by code_simp

lemma progress_5: "min (jsMultiply (jsDivide 5 10) 100) 100 = 50" by code_simp

lemma progress_6: "min (jsMultiply (jsDivide 6 10) 100) 100 = 60" by code_simp

lemma progress_7: "min (jsMultiply (jsDivide 7 10) 100) 100 = 70" by code_simp

lemma progress_8: "min (jsMultiply (jsDivide 8 10) 100) 100 = 80" by code_simp

lemma progress_9: "min (jsMultiply (jsDivide 9 10) 100) 100 = 90" by code_simp

lemmas progress_below_ten_cases =
  progress_0 progress_1 progress_2 progress_3 progress_4
  progress_5 progress_6 progress_7 progress_8 progress_9

lemma progress_below_ten:
  assumes "n < 10"
  shows "min (jsMultiply (jsDivide (of_nat n) 10) 100) 100 = 10 * of_nat n"
proof -
  from assms consider "n = 0" | "n = 1" | "n = 2" | "n = 3" | "n = 4"
    | "n = 5" | "n = 6" | "n = 7" | "n = 8" | "n = 9"
    by atomize_elim arith
  then show ?thesis
    by cases (simp_all add: progress_below_ten_cases)
qed

lemma progress_value:
  "min (jsMultiply (jsDivide (of_nat n) 10) 100) 100 = min 100 (100 * of_nat n / 10)"
proof (cases "n < 10")
  case True
  then show ?thesis by (simp add: progress_below_ten)
next
  case False
  then show ?thesis by (simp add: progress_at_least_ten)
qed

section \<open>The status mapper\<close>

subsection \<open>Status\<close>

text \<open>
  C1, as the code has it. The test \<^verbatim>\<open>if (stoppedAt)\<close> is a truthiness test: the status is
  \<open>failed\<close> for every stop timestamp that is a non-empty string, whatever the finished flag;
  for \<^verbatim>\<open>null\<close> and for the empty string it is \<open>completed\<close> when the finished flag is set and
  \<open>processing\<close> when it is not.
\<close>

theorem mapN8NStatus_by_truthiness:
  "(t \<noteq> [] \<longrightarrow> mapN8NStatus fin (Some t) = Failed) \<and>
   (stopped = None \<or> stopped = Some [] \<longrightarrow>
      mapN8NStatus fin stopped = (if fin then Completed else Processing))"
  by (auto simp: mapN8NStatus_def truthyString_def)

text \<open>
  C1 at concrete records: a stopped execution with either value of the finished flag, and
  the two executions without a stop timestamp.
\<close>

theorem mapN8NStatus_by_truthiness_witness:
  "mapN8NStatus True (Some ''2024-05-01T10:15:00.000Z'') = Failed \<and>
   mapN8NStatus False (Some ''2024-05-01T10:15:00.000Z'') = Failed \<and>
   mapN8NStatus True None = Completed \<and>
   mapN8NStatus False None = Processing"
  using mapN8NStatus_by_truthiness [of "''2024-05-01T10:15:00.000Z''" True None]
    mapN8NStatus_by_truthiness [of "''2024-05-01T10:15:00.000Z''" False None]
  by simp

text \<open>
  C1 as stated (failed for every non-null stop timestamp) does not hold: the empty string
  is not \<^verbatim>\<open>null\<close>, and a finished execution that carries it is mapped to \<open>completed\<close>.
\<close>

theorem mapN8NStatus_empty_timestamp:
  "(Some [] :: string option) \<noteq> None \<and> mapN8NStatus True (Some []) = Completed \<and>
   mapN8NStatus True (Some []) \<noteq> Failed"
  by (simp add: mapN8NStatus_def truthyString_def)

subsection \<open>Progress\<close>

lemma calculateProgress_count:
  "calculateProgress e =
     min 100 (10 * of_nat (case runDataOf e of None \<Rightarrow> 0 | Some rd \<Rightarrow> length (objectKeys rd)))"
  by (simp add: calculateProgress_def Let_def progress_value split: option.split)

text \<open>
  C2: the progress is \<open>min(100, 100 * n / 10)\<close> for the \<open>n\<close> keys of the run data, and \<open>0\<close>
  for a record without run data. The code computes \<^verbatim>\<open>(n / 10) * 100\<close> in binary64; the two
  roundings give exactly \<open>10 * n\<close> for every \<open>n\<close> below ten, and at least \<open>100\<close> from ten on.
\<close>

theorem calculateProgress_formula:
  "calculateProgress e =
     (case runDataOf e of
        None \<Rightarrow> 0
      | Some rd \<Rightarrow> min 100 (100 * of_nat (length (objectKeys rd)) / 10))"
  by (simp add: calculateProgress_def Let_def progress_value split: option.split)

text \<open>
  C9: the progress never exceeds \<open>100\<close>, and of two records the one with at least as many
  completed nodes (keys of its run data, none when it has no run data) has at least as
  much progress.
\<close>

theorem calculateProgress_monotone_clamped:
  "calculateProgress e \<le> 100 \<and>
   ((case runDataOf e1 of None \<Rightarrow> 0 | Some rd \<Rightarrow> length (objectKeys rd))
      \<le> (case runDataOf e2 of None \<Rightarrow> 0 | Some rd \<Rightarrow> length (objectKeys rd))
    \<longrightarrow> calculateProgress e1 \<le> calculateProgress e2)"
proof
  show "calculateProgress e \<le> 100"
    by (simp add: calculateProgress_count)
next
  show "(case runDataOf e1 of None \<Rightarrow> 0 | Some rd \<Rightarrow> length (objectKeys rd))
      \<le> (case runDataOf e2 of None \<Rightarrow> 0 | Some rd \<Rightarrow> length (objectKeys rd))
    \<longrightarrow> calculateProgress e1 \<le> calculateProgress e2"
  proof
    assume le: "(case runDataOf e1 of None \<Rightarrow> 0 | Some rd \<Rightarrow> length (objectKeys rd))
      \<le> (case runDataOf e2 of None \<Rightarrow> 0 | Some rd \<Rightarrow> length (objectKeys rd))"
    then have "(10 :: rat) * of_nat (case runDataOf e1 of None \<Rightarrow> 0 | Some rd \<Rightarrow> length (objectKeys rd))
      \<le> 10 * of_nat (case runDataOf e2 of None \<Rightarrow> 0 | Some rd \<Rightarrow> length (objectKeys rd))"
      by simp
    then show "calculateProgress e1 \<le> calculateProgress e2"
      unfolding calculateProgress_count by (rule min.mono [OF order_refl])
  qed
qed

text \<open>C9 at two records, with three and with four completed nodes.\<close>

theorem calculateProgress_monotone_witness:
  "calculateProgress
     \<lparr>finished = False, stoppedAt = None,
      data = Some \<lparr>resultData = Some \<lparr>runData = Some [(''Upload Interviews Webhook'', JArray []),
                                                         (''Process Input Files'', JArray []),
                                                         (''Transcribe with Whisper'', JArray [])],
                                       executionError = None\<rparr>,
                   analysis = None, deliverables = None\<rparr>\<rparr>
   \<le> calculateProgress
     \<lparr>finished = False, stoppedAt = None,
      data = Some \<lparr>resultData = Some \<lparr>runData = Some [(''Upload Interviews Webhook'', JArray []),
                                                         (''Process Input Files'', JArray []),
                                                         (''Transcribe with Whisper'', JArray []),
                                                         (''4P Story Analysis'', JArray [])],
                                       executionError = None\<rparr>,
                   analysis = None, deliverables = None\<rparr>\<rparr>
   \<and> calculateProgress
     \<lparr>finished = False, stoppedAt = None,
      data = Some \<lparr>resultData = Some \<lparr>runData = Some [(''Upload Interviews Webhook'', JArray []),
                                                         (''Process Input Files'', JArray []),
                                                         (''Transcribe with Whisper'', JArray []),
                                                         (''4P Story Analysis'', JArray [])],
                                       executionError = None\<rparr>,
                   analysis = None, deliverables = None\<rparr>\<rparr>
   \<le> 100"
proof -
  let ?three = "\<lparr>finished = False, stoppedAt = None,
      data = Some \<lparr>resultData = Some \<lparr>runData = Some [(''Upload Interviews Webhook'', JArray []),
                                                         (''Process Input Files'', JArray []),
                                                         (''Transcribe with Whisper'', JArray [])],
                                       executionError = None\<rparr>,
                   analysis = None, deliverables = None\<rparr>\<rparr>"
  let ?four = "\<lparr>finished = False, stoppedAt = None,
      data = Some \<lparr>resultData = Some \<lparr>runData = Some [(''Upload Interviews Webhook'', JArray []),
                                                         (''Process Input Files'', JArray []),
                                                         (''Transcribe with Whisper'', JArray []),
                                                         (''4P Story Analysis'', JArray [])],
                                       executionError = None\<rparr>,
                   analysis = None, deliverables = None\<rparr>\<rparr>"
  have fewer: "(case runDataOf ?three of None \<Rightarrow> 0 | Some rd \<Rightarrow> length (objectKeys rd))
      \<le> (case runDataOf ?four of None \<Rightarrow> 0 | Some rd \<Rightarrow> length (objectKeys rd))"
    by (simp add: runDataOf_def objectKeys_def)
  from calculateProgress_monotone_clamped [of ?four ?three ?four] fewer
  show ?thesis by blast
qed

subsection \<open>Current step\<close>

lemma getPropertyOr_own:
  "map_of table key = Some v \<Longrightarrow> v \<noteq> [] \<Longrightarrow> getPropertyOr table key fallback = StringValue v"
  by (simp add: getPropertyOr_def getProperty_def)

lemma getPropertyOr_unknown:
  "map_of table key = None \<Longrightarrow> key \<notin> set objectPrototypeNames \<Longrightarrow>
   getPropertyOr table key fallback = StringValue fallback"
  by (simp add: getPropertyOr_def getProperty_def)

lemma getPropertyOr_inherited:
  "map_of table key = None \<Longrightarrow> key \<in> set objectPrototypeNames \<Longrightarrow>
   getPropertyOr table key fallback = InheritedMember key"
  by (simp add: getPropertyOr_def getProperty_def)

lemma getCurrentStep_no_run_data:
  "runDataOf e = None \<Longrightarrow> getCurrentStep e = StringValue ''Starting...''"
  by (simp add: getCurrentStep_def)

lemma stepMap_values_nonempty: "map_of stepMap key = Some v \<Longrightarrow> v \<noteq> []"
  by (auto simp: stepMap_def split: if_splits)

lemma getCurrentStep_last_node:
  assumes "runDataOf e = Some rd" and "rd \<noteq> []"
  shows "map_of stepMap (fst (last rd)) = Some label \<Longrightarrow> getCurrentStep e = StringValue label"
    and "map_of stepMap (fst (last rd)) = None \<Longrightarrow> fst (last rd) \<notin> set objectPrototypeNames \<Longrightarrow>
         getCurrentStep e = StringValue ''Processing...''"
    and "map_of stepMap (fst (last rd)) = None \<Longrightarrow> fst (last rd) \<in> set objectPrototypeNames \<Longrightarrow>
         getCurrentStep e = InheritedMember (fst (last rd))"
  using assms
  by (simp_all add: getCurrentStep_def Let_def objectKeys_def lastElement_def toStringOpt_def
      last_map getPropertyOr_own getPropertyOr_unknown getPropertyOr_inherited stepMap_values_nonempty)

text \<open>
  C3 at a record whose last completed node is named \<^verbatim>\<open>constructor\<close>. The name is not in
  the table, so the label should be \<open>Processing...\<close>; the lookup finds the member every
  object literal inherits under that name, which is truthy, and returns it: the current
  step is not a string at all.
\<close>

theorem getCurrentStep_inherited_name:
  "getCurrentStep
     \<lparr>finished = False, stoppedAt = None,
      data = Some \<lparr>resultData = Some \<lparr>runData = Some [(''constructor'', JArray [])],
                                       executionError = None\<rparr>,
                   analysis = None, deliverables = None\<rparr>\<rparr>
   = InheritedMember ''constructor''"
  by (simp add: getCurrentStep_def runDataOf_def objectKeys_def lastElement_def toStringOpt_def
      getPropertyOr_def getProperty_def stepMap_def objectPrototypeNames_def)

section \<open>The workflow client\<close>

subsection \<open>Upload\<close>

lemma uploadLoop_append:
  "uploadLoop post pre acc s = (Inr paths, s1) \<Longrightarrow>
   uploadLoop post (pre @ rest) acc s = uploadLoop post rest paths s1"
proof (induction pre arbitrary: acc s)
  case Nil
  then show ?case by simp
next
  case (Cons f pre)
  then show ?case
    by (auto split: prod.splits sum.splits)
qed

lemma uploadLoop_first_fails:
  "post s1 f = (Inl err, s2) \<Longrightarrow>
   uploadLoop post (f # rest) acc s1 =
     (Inl (newError (''Failed to upload file '' @ originalname f @ '': '' @ errorToString err)), s2)"
  by simp

text \<open>
  C4: when the uploads of the files before position \<open>i\<close> succeed and the upload of the file
  at \<open>i\<close> fails, \<open>uploadFiles\<close> fails; its error message names that file and carries the
  remote error; the paths collected so far are not returned, and no later file is sent
  (the endpoint stays in the state the failed upload left). The number \<open>i\<close> of files before
  plays no part.
\<close>

theorem uploadFiles_failure_names_file:
  assumes i: "i < length fs"
    and before: "uploadFiles post (take i fs) s = (Inr paths, s1)"
    and fails: "post s1 (fs ! i) = (Inl err, s2)"
  shows "uploadFiles post fs s =
           (Inl (JsError ''Error''
                  (''Failed to upload file '' @ originalname (fs ! i) @ '': '' @ errorToString err)),
            s2)"
proof -
  from i have split: "fs = take i fs @ fs ! i # drop (Suc i) fs"
    by (simp add: id_take_nth_drop)
  from before have "uploadLoop post (take i fs) [] s = (Inr paths, s1)"
    by (simp add: uploadFiles_def)
  then have "uploadLoop post (take i fs @ fs ! i # drop (Suc i) fs) [] s =
             uploadLoop post (fs ! i # drop (Suc i) fs) paths s1"
    by (rule uploadLoop_append)
  also have "\<dots> = (Inl (newError (''Failed to upload file '' @ originalname (fs ! i) @ '': ''
                               @ errorToString err)), s2)"
    using fails by (rule uploadLoop_first_fails)
  finally show ?thesis
    using split by (simp add: uploadFiles_def newError_def)
qed

text \<open>
  C4 at three files of which the second fails; the endpoint counts the uploads it has seen.
\<close>

theorem uploadFiles_failure_witness:
  "uploadFiles
     (\<lambda>n f. (if originalname f = ''b.mp3''
               then Inl (JsError ''AxiosError'' ''Request failed with status code 500'')
               else Inr \<lparr>replyFilepath = ''/data/'' @ originalname f\<rparr>, Suc n))
     [\<lparr>originalname = ''a.mp4'', buffer = [0, 1], mimetype = ''video/mp4'', bufferSize = 2\<rparr>,
      \<lparr>originalname = ''b.mp3'', buffer = [2], mimetype = ''audio/mp3'', bufferSize = 1\<rparr>,
      \<lparr>originalname = ''c.wav'', buffer = [], mimetype = ''audio/wav'', bufferSize = 0\<rparr>]
     (0 :: nat)
   = (Inl (JsError ''Error''
            ''Failed to upload file b.mp3: AxiosError: Request failed with status code 500''),
      2)"
proof -
  let ?post = "\<lambda>(n :: nat) f. (if originalname f = ''b.mp3''
               then Inl (JsError ''AxiosError'' ''Request failed with status code 500'')
               else Inr \<lparr>replyFilepath = ''/data/'' @ originalname f\<rparr>, Suc n)"
  let ?fs = "[\<lparr>originalname = ''a.mp4'', buffer = [0, 1], mimetype = ''video/mp4'', bufferSize = 2\<rparr>,
      \<lparr>originalname = ''b.mp3'', buffer = [2], mimetype = ''audio/mp3'', bufferSize = 1\<rparr>,
      \<lparr>originalname = ''c.wav'', buffer = [], mimetype = ''audio/wav'', bufferSize = 0\<rparr>]"
  have i: "1 < length ?fs" by simp
  have before: "uploadFiles ?post (take 1 ?fs) 0 = (Inr [''/data/a.mp4''], 1)"
    by (simp add: uploadFiles_def)
  have fails: "?post 1 (?fs ! 1) =
      (Inl (JsError ''AxiosError'' ''Request failed with status code 500''), 2)"
    by simp
  from uploadFiles_failure_names_file [of 1 ?fs ?post 0 "[''/data/a.mp4'']" 1
      "JsError ''AxiosError'' ''Request failed with status code 500''" 2, OF i before fails]
  show ?thesis by (simp add: errorToString_def)
qed

subsection \<open>Execution status\<close>

lemma getExecutionStatus_reply:
  "get (''/api/v1/executions/'' @ jid) = Inr ex \<Longrightarrow>
   getExecutionStatus get jid =
     Inr \<lparr>jobId = jid,
          status = mapN8NStatus (finished ex) (stoppedAt ex),
          progress = calculateProgress ex,
          currentStep = getCurrentStep ex,
          results = (if finished ex \<and> \<not> truthyString (stoppedAt ex) then data ex else None),
          statusError = (if truthyString (stoppedAt ex) then errorMessageOf ex else None)\<rparr>"
  by (simp add: getExecutionStatus_def)

lemma mapN8NStatus_Completed_iff:
  "mapN8NStatus fin stopped = Completed \<longleftrightarrow> fin \<and> \<not> truthyString stopped"
  by (simp add: mapN8NStatus_def)

lemma getExecutionStatus_completed:
  assumes "get (''/api/v1/executions/'' @ jid) = Inr ex"
    and "mapN8NStatus (finished ex) (stoppedAt ex) = Completed"
  shows "getExecutionStatus get jid =
     Inr \<lparr>jobId = jid, status = Completed, progress = calculateProgress ex,
          currentStep = getCurrentStep ex, results = data ex, statusError = None\<rparr>"
  using assms getExecutionStatus_reply [of get jid ex]
  by (simp add: mapN8NStatus_Completed_iff)

lemma getExecutionStatus_failed:
  assumes "get (''/api/v1/executions/'' @ jid) = Inr ex"
    and "truthyString (stoppedAt ex)"
  shows "getExecutionStatus get jid =
     Inr \<lparr>jobId = jid, status = Failed, progress = calculateProgress ex,
          currentStep = getCurrentStep ex, results = None, statusError = errorMessageOf ex\<rparr>"
  using assms getExecutionStatus_reply [of get jid ex]
  by (simp add: mapN8NStatus_def)

text \<open>
  C10: in the status \<open>getExecutionStatus\<close> returns, \<open>results\<close> is present only when the
  status is \<open>completed\<close>, and \<open>error\<close> only when it is \<open>failed\<close>.
\<close>

theorem getExecutionStatus_optional_fields:
  assumes "getExecutionStatus get jid = Inr st"
  shows "(results st \<noteq> None \<longrightarrow> status st = Completed) \<and>
         (statusError st \<noteq> None \<longrightarrow> status st = Failed)"
proof (cases "get (''/api/v1/executions/'' @ jid)")
  case (Inl err)
  with assms show ?thesis by (simp add: getExecutionStatus_def)
next
  case (Inr ex)
  from getExecutionStatus_reply [of get jid ex] Inr assms
  have st: "st = \<lparr>jobId = jid,
          status = mapN8NStatus (finished ex) (stoppedAt ex),
          progress = calculateProgress ex,
          currentStep = getCurrentStep ex,
          results = (if finished ex \<and> \<not> truthyString (stoppedAt ex) then data ex else None),
          statusError = (if truthyString (stoppedAt ex) then errorMessageOf ex else None)\<rparr>"
    by simp
  show ?thesis
    by (simp add: st mapN8NStatus_def)
qed

text \<open>
  C10 at a finished execution with data, and at a stopped one with an error message.
\<close>

theorem getExecutionStatus_optional_fields_witness:
  "(case getExecutionStatus
      (\<lambda>path. Inr \<lparr>finished = True, stoppedAt = None,
                    data = Some \<lparr>resultData = None, analysis = None, deliverables = None\<rparr>\<rparr>)
      ''41''
    of Inl err \<Rightarrow> False
     | Inr st \<Rightarrow> results st \<noteq> None \<and> status st = Completed) \<and>
   (case getExecutionStatus
      (\<lambda>path. Inr \<lparr>finished = True, stoppedAt = Some ''2024-05-01T10:15:00.000Z'',
                    data = Some \<lparr>resultData =
                                  Some \<lparr>runData = None,
                                        executionError = Some \<lparr>message = Some ''disk full''\<rparr>\<rparr>,
                                analysis = None, deliverables = None\<rparr>\<rparr>)
      ''42''
    of Inl err \<Rightarrow> False
     | Inr st \<Rightarrow> statusError st \<noteq> None \<and> status st = Failed)"
proof -
  let ?get1 = "\<lambda>path :: string. (Inr \<lparr>finished = True, stoppedAt = None,
                    data = Some \<lparr>resultData = None, analysis = None, deliverables = None\<rparr>\<rparr>
                 :: js_error + execution)"
  let ?get2 = "\<lambda>path :: string. (Inr \<lparr>finished = True, stoppedAt = Some ''2024-05-01T10:15:00.000Z'',
                    data = Some \<lparr>resultData =
                                  Some \<lparr>runData = None,
                                        executionError = Some \<lparr>message = Some ''disk full''\<rparr>\<rparr>,
                                analysis = None, deliverables = None\<rparr>\<rparr>
                 :: js_error + execution)"
  obtain st1 where st1: "getExecutionStatus ?get1 ''41'' = Inr st1"
    by (simp add: getExecutionStatus_def)
  obtain st2 where st2: "getExecutionStatus ?get2 ''42'' = Inr st2"
    by (simp add: getExecutionStatus_def)
  have r1: "results st1 \<noteq> None"
    using st1 by (auto simp: getExecutionStatus_def truthyString_def)
  have e2: "statusError st2 \<noteq> None"
    using st2 by (auto simp: getExecutionStatus_def truthyString_def errorMessageOf_def)
  from getExecutionStatus_optional_fields [of ?get1 "''41''" st1, OF st1] r1
  have "status st1 = Completed" by blast
  moreover from getExecutionStatus_optional_fields [of ?get2 "''42''" st2, OF st2] e2
  have "status st2 = Failed" by blast
  ultimately show ?thesis
    using st1 st2 r1 e2 by simp
qed

section \<open>The tools\<close>

subsection \<open>Status of a job\<close>

text \<open>
  C7, as the code has it: when the execution's \<^verbatim>\<open>stoppedAt\<close> is a non-empty string and its
  \<^verbatim>\<open>data.resultData.error.message\<close> is a string \<open>m\<close>, the reply of \<open>executeGetStatus\<close>
  has the status \<open>failed\<close> and the error \<open>m\<close>, unchanged.
\<close>

theorem executeGetStatus_failed_error:
  assumes "get (''/api/v1/executions/'' @ jid) = Inr ex"
    and "stoppedAt ex = Some t" and "t \<noteq> []"
    and "data ex = Some d" and "resultData d = Some r"
    and "executionError r = Some er" and "message er = Some m"
  shows "fst (executeGetStatus get js jid) =
           StatusOnly Failed (calculateProgress ex) (getCurrentStep ex) (Some m)"
proof -
  from assms(2,3) have tr: "truthyString (stoppedAt ex)" by (simp add: truthyString_def)
  from assms(4-7) have msg: "errorMessageOf ex = Some m" by (simp add: errorMessageOf_def)
  from getExecutionStatus_failed [of get jid ex] assms(1) tr
  have "getExecutionStatus get jid =
     Inr \<lparr>jobId = jid, status = Failed, progress = calculateProgress ex,
          currentStep = getCurrentStep ex, results = None, statusError = errorMessageOf ex\<rparr>"
    by simp
  then show ?thesis
    by (simp add: executeGetStatus_def Let_def statusOnly_def msg)
qed

text \<open>
  C7 at the scenario of the specification: the execution stopped after two nodes with the
  message \<open>disk full\<close>.
\<close>

theorem executeGetStatus_failed_witness:
  "fst (executeGetStatus
          (\<lambda>path. if path = ''/api/v1/executions/42''
                   then Inr \<lparr>finished = False, stoppedAt = Some ''2024-05-01T10:15:00.000Z'',
                             data = Some
                               \<lparr>resultData = Some
                                  \<lparr>runData = Some [(''Upload Interviews Webhook'', JArray []),
                                                   (''Process Input Files'', JArray [])],
                                   executionError = Some \<lparr>message = Some ''disk full''\<rparr>\<rparr>,
                                analysis = None, deliverables = None\<rparr>\<rparr>
                   else Inl (JsError ''AxiosError'' ''Request failed with status code 404''))
          Map.empty ''42'')
   = StatusOnly Failed 20 (StringValue ''Analyzing files...'') (Some ''disk full'')"
proof -
  let ?ex = "\<lparr>finished = False, stoppedAt = Some ''2024-05-01T10:15:00.000Z'',
              data = Some
                \<lparr>resultData = Some
                   \<lparr>runData = Some [(''Upload Interviews Webhook'', JArray []),
                                    (''Process Input Files'', JArray [])],
                    executionError = Some \<lparr>message = Some ''disk full''\<rparr>\<rparr>,
                 analysis = None, deliverables = None\<rparr>\<rparr>"
  let ?get = "\<lambda>path. if path = ''/api/v1/executions/42''
                then Inr ?ex
                else Inl (JsError ''AxiosError'' ''Request failed with status code 404'')"
  have p: "calculateProgress ?ex = 20"
    by (simp add: calculateProgress_count runDataOf_def objectKeys_def)
  have c: "getCurrentStep ?ex = StringValue ''Analyzing files...''"
    by (simp add: getCurrentStep_def runDataOf_def objectKeys_def lastElement_def toStringOpt_def
        getPropertyOr_def getProperty_def stepMap_def)
  from executeGetStatus_failed_error [of ?get "''42''" ?ex "''2024-05-01T10:15:00.000Z''"
      "\<lparr>resultData = Some
                   \<lparr>runData = Some [(''Upload Interviews Webhook'', JArray []),
                                    (''Process Input Files'', JArray [])],
                    executionError = Some \<lparr>message = Some ''disk full''\<rparr>\<rparr>,
                 analysis = None, deliverables = None\<rparr>"
      "\<lparr>runData = Some [(''Upload Interviews Webhook'', JArray []),
                                    (''Process Input Files'', JArray [])],
                    executionError = Some \<lparr>message = Some ''disk full''\<rparr>\<rparr>"
      "\<lparr>message = Some ''disk full''\<rparr>" "''disk full''" Map.empty]
  show ?thesis by (simp add: p c)
qed

text \<open>
  C7 as stated (for every execution whose \<^verbatim>\<open>stoppedAt\<close> is set) does not hold: an execution
  whose \<^verbatim>\<open>stoppedAt\<close> is the empty string has the field set, and not to \<^verbatim>\<open>null\<close>, yet
  with the message \<open>disk full\<close> the reply has the status \<open>processing\<close> and no error. Both
  the status and the error go through the truthiness test that C1 describes.
\<close>

theorem executeGetStatus_empty_timestamp:
  "stoppedAt
     \<lparr>finished = False, stoppedAt = Some [],
      data = Some \<lparr>resultData = Some \<lparr>runData = None,
                                       executionError = Some \<lparr>message = Some ''disk full''\<rparr>\<rparr>,
                   analysis = None, deliverables = None\<rparr>\<rparr> \<noteq> None \<and>
   fst (executeGetStatus
          (\<lambda>path. Inr \<lparr>finished = False, stoppedAt = Some [],
                        data = Some
                          \<lparr>resultData = Some
                             \<lparr>runData = None,
                              executionError = Some \<lparr>message = Some ''disk full''\<rparr>\<rparr>,
                           analysis = None, deliverables = None\<rparr>\<rparr>)
          Map.empty ''42'')
   = StatusOnly Processing 0 (StringValue ''Starting...'') None"
  by (simp add: executeGetStatus_def getExecutionStatus_def mapN8NStatus_def truthyString_def
      calculateProgress_def getCurrentStep_def runDataOf_def statusOnly_def Let_def)

subsection \<open>Insights\<close>

text \<open>
  C5: for a completed execution that carries an analysis, \<open>executeGetInsights\<close> with the
  insight type \<open>transformation\<close> succeeds with exactly three lists: the plot entries whose
  significance contains the text \<open>transformation\<close>, every person as the pair of its name
  (\<open>character\<close>) and its significance (\<open>transformation\<close>), and the soundbites whose
  emotional impact is greater than 7. A list the analysis lacks stays absent.
\<close>

theorem executeGetInsights_transformation:
  assumes "get (''/api/v1/executions/'' @ jid) = Inr ex"
    and "mapN8NStatus (finished ex) (stoppedAt ex) = Completed"
    and "data ex = Some d"
    and "analysis d = Some an"
  shows "executeGetInsights get jid (Some ''transformation'') =
     InsightsSuccess (TransformationInsights
       \<lparr>transformationMoments =
          map_option
            (filter (\<lambda>p. \<exists>pre post. plotSignificance p = pre @ ''transformation'' @ post))
            (plot an),
        keyCharacterArcs =
          map_option
            (map (\<lambda>pe. \<lparr>character = personName pe, transformation = personSignificance pe\<rparr>))
            (people an),
        emotionalHighpoints =
          map_option (filter (\<lambda>sb. 7 < emotionalImpact sb)) (soundbites an)\<rparr>)"
proof -
  have sel: "selectInsights (Some an) ''transformation'' =
      Inr (TransformationInsights
       \<lparr>transformationMoments =
          map_option
            (filter (\<lambda>p. \<exists>pre post. plotSignificance p = pre @ ''transformation'' @ post))
            (plot an),
        keyCharacterArcs =
          map_option
            (map (\<lambda>pe. \<lparr>character = personName pe, transformation = personSignificance pe\<rparr>))
            (people an),
        emotionalHighpoints =
          map_option (filter (\<lambda>sb. 7 < emotionalImpact sb)) (soundbites an)\<rparr>)"
    by (simp add: selectInsights_def extractTransformationInsights_def stringIncludes_iff)
  from getExecutionStatus_completed [of get jid ex] assms(1,2)
  have "getExecutionStatus get jid =
     Inr \<lparr>jobId = jid, status = Completed, progress = calculateProgress ex,
          currentStep = getCurrentStep ex, results = data ex, statusError = None\<rparr>"
    by simp
  then show ?thesis
    using assms(3,4) sel by (simp add: executeGetInsights_def)
qed

text \<open>
  C5 at an analysis with two plot entries, one person and two soundbites, one of them with
  an emotional impact of exactly 7.
\<close>

theorem executeGetInsights_transformation_witness:
  "executeGetInsights
     (\<lambda>path. Inr \<lparr>finished = True, stoppedAt = None,
                   data = Some
                     \<lparr>resultData = None,
                      analysis = Some
                        \<lparr>people = Some [\<lparr>personName = ''Ana'', personRole = ''founder'',
                                         personSignificance = ''learns to lead''\<rparr>],
                         places = None, purpose = None,
                         plot = Some [\<lparr>event = ''launch'', timestamp = 12,
                                       plotSignificance = ''start of her transformation''\<rparr>,
                                      \<lparr>event = ''lunch'', timestamp = 30,
                                       plotSignificance = ''a quiet day''\<rparr>],
                         soundbites = Some
                           [\<lparr>soundbiteText = ''I nearly quit'', startTime = 3, endTime = 5,
                             speaker = None, emotionalImpact = 9, pCategory = PlotCategory,
                             soundbiteTheme = ''Doubt''\<rparr>,
                            \<lparr>soundbiteText = ''We met in May'', startTime = 8, endTime = 9,
                             speaker = None, emotionalImpact = 7, pCategory = PeopleCategory,
                             soundbiteTheme = ''Family''\<rparr>],
                         overallNarrative = None\<rparr>,
                      deliverables = None\<rparr>\<rparr>)
     ''42'' (Some ''transformation'')
   = InsightsSuccess (TransformationInsights
       \<lparr>transformationMoments =
          Some [\<lparr>event = ''launch'', timestamp = 12,
                 plotSignificance = ''start of her transformation''\<rparr>],
        keyCharacterArcs = Some [\<lparr>character = ''Ana'', transformation = ''learns to lead''\<rparr>],
        emotionalHighpoints =
          Some [\<lparr>soundbiteText = ''I nearly quit'', startTime = 3, endTime = 5,
                 speaker = None, emotionalImpact = 9, pCategory = PlotCategory,
                 soundbiteTheme = ''Doubt''\<rparr>]\<rparr>)"
proof -
  let ?an = "\<lparr>people = Some [\<lparr>personName = ''Ana'', personRole = ''founder'',
                                         personSignificance = ''learns to lead''\<rparr>],
                         places = None, purpose = None,
                         plot = Some [\<lparr>event = ''launch'', timestamp = 12,
                                       plotSignificance = ''start of her transformation''\<rparr>,
                                      \<lparr>event = ''lunch'', timestamp = 30,
                                       plotSignificance = ''a quiet day''\<rparr>],
                         soundbites = Some
                           [\<lparr>soundbiteText = ''I nearly quit'', startTime = 3, endTime = 5,
                             speaker = None, emotionalImpact = 9, pCategory = PlotCategory,
                             soundbiteTheme = ''Doubt''\<rparr>,
                            \<lparr>soundbiteText = ''We met in May'', startTime = 8, endTime = 9,
                             speaker = None, emotionalImpact = 7, pCategory = PeopleCategory,
                             soundbiteTheme = ''Family''\<rparr>],
                         overallNarrative = None\<rparr>"
  let ?d = "\<lparr>resultData = None, analysis = Some ?an, deliverables = None\<rparr>"
  let ?ex = "\<lparr>finished = True, stoppedAt = None, data = Some ?d\<rparr>"
  let ?get = "\<lambda>path :: string. (Inr ?ex :: js_error + execution)"
  have comp: "mapN8NStatus (finished ?ex) (stoppedAt ?ex) = Completed"
    by (simp add: mapN8NStatus_def truthyString_def)
  from executeGetInsights_transformation
      [of ?get "''42''" ?ex ?d ?an, unfolded stringIncludes_iff [symmetric]] comp
  show ?thesis by simp
qed

text \<open>
  C6: for a completed execution with results, \<open>executeGetInsights\<close> with the insight type
  \<open>all\<close> (or with none given, which defaults to it) succeeds with the analysis of the
  execution's data, the very value that came from the engine: every list it has is there,
  unchanged, and nothing is added.
\<close>

theorem executeGetInsights_all:
  assumes "get (''/api/v1/executions/'' @ jid) = Inr ex"
    and "mapN8NStatus (finished ex) (stoppedAt ex) = Completed"
    and "data ex = Some d"
  shows "executeGetInsights get jid (Some ''all'') = InsightsSuccess (AnalysisInsights (analysis d)) \<and>
         executeGetInsights get jid None = InsightsSuccess (AnalysisInsights (analysis d))"
proof -
  have sel: "selectInsights (analysis d) ''all'' = Inr (AnalysisInsights (analysis d))"
    by (simp add: selectInsights_def)
  from getExecutionStatus_completed [of get jid ex] assms(1,2)
  have st: "getExecutionStatus get jid =
     Inr \<lparr>jobId = jid, status = Completed, progress = calculateProgress ex,
          currentStep = getCurrentStep ex, results = data ex, statusError = None\<rparr>"
    by simp
  show ?thesis
    using st assms(3) sel by (simp add: executeGetInsights_def)
qed

text \<open>C6 at an analysis that has people and a plot and lacks the other lists.\<close>

theorem executeGetInsights_all_witness:
  "executeGetInsights
     (\<lambda>path. Inr \<lparr>finished = True, stoppedAt = None,
                   data = Some
                     \<lparr>resultData = None,
                      analysis = Some
                        \<lparr>people = Some [\<lparr>personName = ''Ana'', personRole = ''founder'',
                                         personSignificance = ''learns to lead''\<rparr>],
                         places = None, purpose = None,
                         plot = Some [\<lparr>event = ''launch'', timestamp = 12,
                                       plotSignificance = ''start of her transformation''\<rparr>],
                         soundbites = None,
                         overallNarrative = Some ''A founder grows''\<rparr>,
                      deliverables = None\<rparr>\<rparr>)
     ''42'' (Some ''all'')
   = InsightsSuccess (AnalysisInsights (Some
       \<lparr>people = Some [\<lparr>personName = ''Ana'', personRole = ''founder'',
                        personSignificance = ''learns to lead''\<rparr>],
        places = None, purpose = None,
        plot = Some [\<lparr>event = ''launch'', timestamp = 12,
                      plotSignificance = ''start of her transformation''\<rparr>],
        soundbites = None,
        overallNarrative = Some ''A founder grows''\<rparr>))"
proof -
  let ?an = "\<lparr>people = Some [\<lparr>personName = ''Ana'', personRole = ''founder'',
                                         personSignificance = ''learns to lead''\<rparr>],
                         places = None, purpose = None,
                         plot = Some [\<lparr>event = ''launch'', timestamp = 12,
                                       plotSignificance = ''start of her transformation''\<rparr>],
                         soundbites = None,
                         overallNarrative = Some ''A founder grows''\<rparr>"
  let ?d = "\<lparr>resultData = None, analysis = Some ?an, deliverables = None\<rparr>"
  let ?ex = "\<lparr>finished = True, stoppedAt = None, data = Some ?d\<rparr>"
  let ?get = "\<lambda>path :: string. (Inr ?ex :: js_error + execution)"
  have comp: "mapN8NStatus (finished ?ex) (stoppedAt ?ex) = Completed"
    by (simp add: mapN8NStatus_def truthyString_def)
  from executeGetInsights_all [of ?get "''42''" ?ex ?d] comp
  show ?thesis by simp
qed

subsection \<open>Starting an analysis\<close>

lemma splitAcc_nonempty: "splitAcc sep cur s \<noteq> []"
  by (induction s arbitrary: cur) auto

lemma getMimeTypeFromUrl_unknown:
  assumes "map_of mimeMap (toLowerCase (last (split url (CHR ''.'')))) = None"
    and "toLowerCase (last (split url (CHR ''.''))) \<notin> set objectPrototypeNames"
  shows "getMimeTypeFromUrl url = StringValue ''application/octet-stream''"
proof -
  let ?ext = "toLowerCase (last (split url (CHR ''.'')))"
  have ne: "split url (CHR ''.'') \<noteq> []" by (simp add: split_def splitAcc_nonempty)
  show ?thesis
  proof (cases "?ext = []")
    case True
    then show ?thesis
      using ne
      by (simp add: getMimeTypeFromUrl_def lastElement_def orElse_def Let_def
          getPropertyOr_def getProperty_def mimeMap_def objectPrototypeNames_def)
  next
    case False
    with ne have "getMimeTypeFromUrl url = getPropertyOr mimeMap ?ext ''application/octet-stream''"
      by (simp add: getMimeTypeFromUrl_def lastElement_def orElse_def Let_def)
    with assms show ?thesis by (simp add: getPropertyOr_unknown)
  qed
qed

lemma getMimeTypeFromUrl_known:
  assumes "map_of mimeMap (toLowerCase (last (split url (CHR ''.'')))) = Some v"
  shows "getMimeTypeFromUrl url = StringValue v"
proof -
  let ?ext = "toLowerCase (last (split url (CHR ''.'')))"
  have ne: "split url (CHR ''.'') \<noteq> []" by (simp add: split_def splitAcc_nonempty)
  from assms have ext: "?ext \<noteq> []" by (auto simp: mimeMap_def)
  from assms have v: "v \<noteq> []" by (auto simp: mimeMap_def split: if_splits)
  from ne ext have "getMimeTypeFromUrl url = getPropertyOr mimeMap ?ext ''application/octet-stream''"
    by (simp add: getMimeTypeFromUrl_def lastElement_def orElse_def Let_def)
  with assms v show ?thesis by (simp add: getPropertyOr_own)
qed

text \<open>
  The scenario of the specification: for the themes \<open>[{name: "Family"}]\<close> and the file URLs
  \<open>["a.mp4", "b.mp3"]\<close> the request has exactly two files, with the MIME types \<open>video/mp4\<close>
  and \<open>audio/mp3\<close> in that order, and output options that are all true with the language
  \<open>en\<close>; and this is the request \<open>executeStartAnalysis\<close> posts: an endpoint that accepts
  this request and no other starts the job.
\<close>

lemma executeStartAnalysis_scenario:
  "startAnalysisRequest
     \<lparr>argThemes = [\<lparr>argName = ''Family'', argDescription = None, argPriority = None\<rparr>],
      argOutputOptions = None,
      argFileUrls = [''a.mp4'', ''b.mp3'']\<rparr>
   = \<lparr>files =
        [\<lparr>filename = ''interview_1.mp4'', filepath = ''a.mp4'', fileSize = 0,
          mimeType = StringValue ''video/mp4'', duration = None\<rparr>,
         \<lparr>filename = ''interview_2.mp3'', filepath = ''b.mp3'', fileSize = 0,
          mimeType = StringValue ''audio/mp3'', duration = None\<rparr>],
      themes = [\<lparr>themeName = ''Family'', themeDescription = [], themePriority = Medium\<rparr>],
      outputOptions =
        \<lparr>createSpreadsheet = True, createSummary = True, createVideoClips = True,
         language = ''en''\<rparr>\<rparr>
   \<and> fst (executeStartAnalysis
          (\<lambda>request.
             if request =
                \<lparr>files =
                   [\<lparr>filename = ''interview_1.mp4'', filepath = ''a.mp4'', fileSize = 0,
                     mimeType = StringValue ''video/mp4'', duration = None\<rparr>,
                    \<lparr>filename = ''interview_2.mp3'', filepath = ''b.mp3'', fileSize = 0,
                     mimeType = StringValue ''audio/mp3'', duration = None\<rparr>],
                 themes = [\<lparr>themeName = ''Family'', themeDescription = [],
                            themePriority = Medium\<rparr>],
                 outputOptions =
                   \<lparr>createSpreadsheet = True, createSummary = True, createVideoClips = True,
                    language = ''en''\<rparr>\<rparr>
             then Inr ''1001''
             else Inl (JsError ''AxiosError'' ''Request failed with status code 400''))
          Map.empty
          \<lparr>argThemes = [\<lparr>argName = ''Family'', argDescription = None, argPriority = None\<rparr>],
           argOutputOptions = None,
           argFileUrls = [''a.mp4'', ''b.mp3'']\<rparr>)
     = StartSuccess ''1001'' ''Storytelling analysis started successfully''
         ''10-30 minutes depending on file sizes'' [''Family''] 2"
  by code_simp

text \<open>
  C8 at the file URL \<open>a.constructor\<close>. The claim's rule gives every extension outside the
  table the MIME type \<open>application/octet-stream\<close>, and \<open>constructor\<close> is outside the
  table. The lookup \<^verbatim>\<open>mimeMap[ext || '']\<close> finds the member the object literal inherits
  under that name, which is truthy, so the file's \<^verbatim>\<open>mimeType\<close> is that member and not a
  string. It is the slip of \<open>getCurrentStep\<close> (C3) in a second table.
\<close>

theorem getMimeTypeFromUrl_inherited_extension:
  "getMimeTypeFromUrl ''a.constructor'' = InheritedMember ''constructor'' \<and>
   getMimeTypeFromUrl ''a.constructor'' \<noteq> StringValue ''application/octet-stream'' \<and>
   map mimeType
     (files (startAnalysisRequest
        \<lparr>argThemes = [\<lparr>argName = ''Family'', argDescription = None, argPriority = None\<rparr>],
         argOutputOptions = None,
         argFileUrls = [''a.constructor'']\<rparr>))
   = [InheritedMember ''constructor'']"
  by code_simp

end
